theory Spec2Isabelle
  imports Main
begin

section \<open>Python strings\<close>

text \<open>
  A Python \<open>str\<close> is modelled as a \<open>string\<close> whose characters are the code points
  below 256. On that range \<open>str.strip()\<close> removes the code points for which
  \<open>str.isspace()\<close> holds (9 to 13, 28 to 32, 133 and 160) and \<open>str.lower()\<close> maps
  \<open>A\<close>..\<open>Z\<close> and the capital letters 192..222 (215, the multiplication sign, apart)
  to the code point 32 above; neither changes the number of characters.
\<close>

definition is_space :: "char \<Rightarrow> bool" where
  "is_space c =
     (let n = (of_char c :: nat)
      in (9 \<le> n \<and> n \<le> 13) \<or> (28 \<le> n \<and> n \<le> 32) \<or> n = 133 \<or> n = 160)"

definition lower_char :: "char \<Rightarrow> char" where
  "lower_char c =
     (let n = (of_char c :: nat)
      in if (65 \<le> n \<and> n \<le> 90) \<or> (192 \<le> n \<and> n \<le> 222 \<and> n \<noteq> 215)
         then char_of (n + 32) else c)"

definition lower :: "string \<Rightarrow> string" where
  "lower s = map lower_char s"

definition strip :: "string \<Rightarrow> string" where
  "strip s = rev (dropWhile is_space (rev (dropWhile is_space s)))"

definition startswith_hash :: "string \<Rightarrow> bool" where
  \<comment> \<open>\<open>line.startswith('#')\<close>\<close>
  "startswith_hash s = (case s of [] \<Rightarrow> False | c # _ \<Rightarrow> c = CHR ''#'')"

definition split1 :: "char \<Rightarrow> string \<Rightarrow> string list" where
  \<comment> \<open>\<open>s.split(sep, 1)\<close> for a separator of one character: at most one split, at the
      first occurrence\<close>
  "split1 sep s =
     (if sep \<in> set s
      then [takeWhile (\<lambda>c. c \<noteq> sep) s, tl (dropWhile (\<lambda>c. c \<noteq> sep) s)]
      else [s])"

definition replace_char :: "char \<Rightarrow> char \<Rightarrow> string \<Rightarrow> string" where
  \<comment> \<open>\<open>s.replace(old, new)\<close> for \<open>old\<close> and \<open>new\<close> of one character each\<close>
  "replace_char old new s = map (\<lambda>c. if c = old then new else c) s"

section \<open>Exceptions and dictionaries\<close>

text \<open>
  An exception carries its \<open>str(e)\<close>. \<open>Exn\<close> stands for the instances of
  \<open>Exception\<close>, which \<open>except Exception\<close> catches; \<open>BaseExn\<close> for the instances of
  \<open>BaseException\<close> that are not (\<open>SystemExit\<close>, \<open>KeyboardInterrupt\<close>,
  \<open>GeneratorExit\<close>), which it does not catch.
\<close>

datatype exn = Exn string | BaseExn string

text \<open>
  A \<open>dict\<close> is an association list with distinct keys in insertion order: assigning to
  a key that is present replaces its value in place, a new key goes to the end.
\<close>

type_synonym ('k, 'v) dict = "('k \<times> 'v) list"

fun dict_set :: "('k, 'v) dict \<Rightarrow> 'k \<Rightarrow> 'v \<Rightarrow> ('k, 'v) dict" where
  "dict_set [] k v = [(k, v)]"
| "dict_set ((k', v') # d) k v =
     (if k' = k then (k, v) # d else (k', v') # dict_set d k v)"

definition dict_get :: "('k, 'v) dict \<Rightarrow> 'k \<Rightarrow> 'v \<Rightarrow> 'v" where
  \<comment> \<open>\<open>d.get(k, default)\<close>\<close>
  "dict_get d k dflt = (case map_of d k of None \<Rightarrow> dflt | Some v \<Rightarrow> v)"

definition dict_keys :: "('k, 'v) dict \<Rightarrow> 'k list" where
  "dict_keys d = map fst d"

section \<open>Reading \<open>plugin.cfg\<close>\<close>

text \<open>
  Lines 62 to 70 of \<open>server.py\<close>: the loop over the lines of the file. The tuple
  assignment \<open>key, value = line.split('=', 1)\<close> raises \<open>ValueError\<close> unless the
  split has exactly two parts.
\<close>

definition unpack2 :: "string list \<Rightarrow> exn + string \<times> string" where
  "unpack2 xs = (case xs of [k, v] \<Rightarrow> Inr (k, v) | _ \<Rightarrow> Inl (Exn ''ValueError''))"

fun read_config_loop ::
  "string list \<Rightarrow> (string, string) dict \<Rightarrow> exn + (string, string) dict" where
  "read_config_loop [] plugin_info = Inr plugin_info"
| "read_config_loop (l # ls) plugin_info =
     (let line = strip l
      in if CHR ''='' \<in> set line \<and> \<not> startswith_hash line
         then (case unpack2 (split1 CHR ''='' line) of
                 Inl e \<Rightarrow> Inl e
               | Inr (key, val) \<Rightarrow>
                   read_config_loop ls (dict_set plugin_info (strip key) (strip val)))
         else read_config_loop ls plugin_info)"

definition read_config :: "string list \<Rightarrow> exn + (string, string) dict" where
  "read_config ls = read_config_loop ls []"

subsection \<open>The manifest as the specification words it\<close>

text \<open>
  Trim every line; drop the lines that are empty, have no \<open>=\<close> or begin with \<open>#\<close>;
  split each remaining line at its first \<open>=\<close> and trim both parts; of two pairs with
  the same key the later one wins.
\<close>

definition spec_skipped :: "string \<Rightarrow> bool" where
  "spec_skipped line = (line = [] \<or> CHR ''='' \<notin> set line \<or> startswith_hash line)"

definition spec_pair :: "string \<Rightarrow> string \<times> string" where
  "spec_pair line =
     (strip (takeWhile (\<lambda>c. c \<noteq> CHR ''='') line),
      strip (tl (dropWhile (\<lambda>c. c \<noteq> CHR ''='') line)))"

definition spec_pairs :: "string list \<Rightarrow> (string \<times> string) list" where
  "spec_pairs ls = map spec_pair (filter (\<lambda>l. \<not> spec_skipped l) (map strip ls))"


section \<open>The world outside the plugin manager\<close>

text \<open>
  The dispatch surface is the list of the routes registered so far. A module is the
  table of its attributes; an attribute is callable or not, and a callable, given the
  surface, returns the surface it leaves behind and the exception it raised, if any.
  The code of a plugin acts on the dispatch surface only: not on \<open>sys.path\<close>, on the
  registry or on the file system.
\<close>

type_synonym routes = "string list"

datatype attr = Callable "routes \<Rightarrow> routes \<times> exn option" | NonCallable

type_synonym pymodule = "string \<rightharpoonup> attr"

text \<open>
  What the library calls of \<open>_load_plugin\<close> do on a path that exists:
  \<open>file_lines\<close> is the outcome of \<open>open(path, 'r', encoding='utf-8')\<close> and of the
  iteration over its lines, \<open>module_spec\<close> the exception raised by
  \<open>spec_from_file_location\<close> followed by \<open>module_from_spec\<close> (\<open>None\<close> when a
  module object is made), \<open>exec_module\<close> the outcome of \<open>spec.loader.exec_module\<close>.
  A plugin directory maps a relative name \<open>s\<close> to what \<open>plugin_path / s\<close> resolves to,
  \<open>None\<close> when that path does not exist.
\<close>

record node =
  file_lines :: "exn + string list"
  module_spec :: "exn option"
  exec_module :: "exn + pymodule"

type_synonym plugin_fs = "string \<rightharpoonup> node"

text \<open>
  The plugin root is absent (\<open>None\<close>) or a directory, given as the list of its entries
  in the order \<open>iterdir()\<close> enumerates them. A path \<open>plugin_dir / name\<close> exists exactly
  when \<open>name\<close> is an entry (the file system is case-sensitive). Loading a plugin does
  not change the file system.
\<close>

datatype entry = RegularFile | Directory plugin_fs

type_synonym listing = "(string \<times> entry) list"

definition is_dir :: "listing \<Rightarrow> string \<Rightarrow> bool" where
  \<comment> \<open>\<open>plugin_path.exists() and plugin_path.is_dir()\<close>\<close>
  "is_dir es name =
     (case map_of es name of Some (Directory _) \<Rightarrow> True | _ \<Rightarrow> False)"

section \<open>The plugin manager\<close>

record plugin_record =
  info :: "(string, string) dict"
  pmodule :: pymodule
  path :: string

text \<open>The lines printed, one constructor for each \<open>print\<close> of the class.\<close>

datatype line =
    NoPluginDir string                \<comment> \<open>line 26\<close>
  | NoConfig string                   \<comment> \<open>line 57\<close>
  | NoMainFile string string          \<comment> \<open>line 76\<close>
  | Registered string                 \<comment> \<open>lines 104 and 108\<close>
  | NoRegisterFunction string string  \<comment> \<open>line 111\<close>
  | LoadError string string           \<comment> \<open>line 121\<close>

text \<open>
  The state the manager reads and writes: its own fields \<open>plugin_dir\<close> and
  \<open>plugins\<close>, the application object shared with the caller (\<open>self.app\<close>),
  \<open>sys.path\<close> and the standard output.
\<close>

record state =
  plugin_dir :: string
  plugins :: "(string, plugin_record) dict"
  app :: routes
  sys_path :: "string list"
  stdout :: "line list"

definition print :: "line \<Rightarrow> state \<Rightarrow> state" where
  "print l st = st\<lparr>stdout := stdout st @ [l]\<rparr>"

definition init :: "string \<Rightarrow> routes \<Rightarrow> string list \<Rightarrow> state" where
  \<comment> \<open>\<open>PluginManager(plugin_dir)\<close>, in a process with the given application and
      \<open>sys.path\<close>\<close>
  "init dir a sp = \<lparr>plugin_dir = dir, plugins = [], app = a, sys_path = sp, stdout = []\<rparr>"

definition path_str :: "string \<Rightarrow> string \<Rightarrow> string" where
  \<comment> \<open>\<open>str(self.plugin_dir / plugin_name)\<close>\<close>
  "path_str dir name = dir @ ''/'' @ name"

definition sys_path_add :: "string \<Rightarrow> string list \<Rightarrow> string list" where
  \<comment> \<open>lines 88 and 89\<close>
  "sys_path_add p sp = (if p \<notin> set sp then p # sp else sp)"

definition register_function_name :: "string \<Rightarrow> string" where
  \<comment> \<open>line 94\<close>
  "register_function_name plugin_name =
     ''register_'' @ replace_char CHR ''-'' CHR ''_'' (lower plugin_name) @ ''_routes''"

definition main_file_name :: "(string, string) dict \<Rightarrow> string \<Rightarrow> string" where
  \<comment> \<open>line 72\<close>
  "main_file_name plugin_info plugin_name =
     dict_get plugin_info ''plugin_main_file'' (lower plugin_name @ ''.py'')"

definition call :: "attr \<Rightarrow> routes \<Rightarrow> routes \<times> exn option" where
  \<comment> \<open>\<open>register_function(self.app)\<close>: calling what is not callable raises
      \<open>TypeError\<close>\<close>
  "call f a = (case f of Callable g \<Rightarrow> g a | NonCallable \<Rightarrow> (a, Some (Exn ''TypeError'')))"

text \<open>
  A block of statements returns the state it leaves behind and the exception it
  raised, if any. The two branches of the test on the plugin's name, lines 100 to 108:
\<close>

definition register_github :: "string \<Rightarrow> attr \<Rightarrow> state \<Rightarrow> state \<times> exn option" where
  \<comment> \<open>lines 103 and 104\<close>
  "register_github plugin_name register_function st =
     (case call register_function (app st) of
        (a, Some e) \<Rightarrow> (st\<lparr>app := a\<rparr>, Some e)
      | (a, None) \<Rightarrow> (print (Registered plugin_name) (st\<lparr>app := a\<rparr>), None))"

definition register_other :: "string \<Rightarrow> attr \<Rightarrow> state \<Rightarrow> state \<times> exn option" where
  \<comment> \<open>lines 107 and 108\<close>
  "register_other plugin_name register_function st =
     (case call register_function (app st) of
        (a, Some e) \<Rightarrow> (st\<lparr>app := a\<rparr>, Some e)
      | (a, None) \<Rightarrow> (print (Registered plugin_name) (st\<lparr>app := a\<rparr>), None))"

definition register_routes :: "string \<Rightarrow> attr \<Rightarrow> state \<Rightarrow> state \<times> exn option" where
  \<comment> \<open>lines 100 to 108\<close>
  "register_routes plugin_name register_function st =
     (if plugin_name = ''GitHub''
      then register_github plugin_name register_function st
      else register_other plugin_name register_function st)"

text \<open>
  The body of the \<open>try\<close>, lines 61 to 118, for a \<open>plugin.cfg\<close> that exists. It is
  given the registration step as a parameter, which the manager instantiates with
  \<open>register_routes\<close>.
\<close>

definition try_body ::
  "(string \<Rightarrow> attr \<Rightarrow> state \<Rightarrow> state \<times> exn option) \<Rightarrow>
   string \<Rightarrow> plugin_fs \<Rightarrow> node \<Rightarrow> state \<Rightarrow> state \<times> exn option" where
  "try_body reg plugin_name d config_file st =
     (case file_lines config_file of
        Inl e \<Rightarrow> (st, Some e)
      | Inr ls \<Rightarrow>
     (case read_config ls of
        Inl e \<Rightarrow> (st, Some e)
      | Inr plugin_info \<Rightarrow>
     (let main_file = main_file_name plugin_info plugin_name
      in case d main_file of
        None \<Rightarrow> (print (NoMainFile plugin_name main_file) st, None)
      | Some main_file_path \<Rightarrow>
     (case module_spec main_file_path of
        Some e \<Rightarrow> (st, Some e)
      | None \<Rightarrow>
     (let plugin_path_str = path_str (plugin_dir st) plugin_name;
          st1 = st\<lparr>sys_path := sys_path_add plugin_path_str (sys_path st)\<rparr>
      in case exec_module main_file_path of
        Inl e \<Rightarrow> (st1, Some e)
      | Inr m \<Rightarrow>
     (let name = register_function_name plugin_name;
          r = (case m name of
                 Some register_function \<Rightarrow> reg plugin_name register_function st1
               | None \<Rightarrow> (print (NoRegisterFunction plugin_name name) st1, None))
      in case r of
        (st2, Some e) \<Rightarrow> (st2, Some e)
      | (st2, None) \<Rightarrow>
          (st2\<lparr>plugins :=
                 dict_set (plugins st2) plugin_name
                   \<lparr>info = plugin_info, pmodule = m, path = plugin_path_str\<rparr>\<rparr>,
           None)))))))"

text \<open>
  \<open>_load_plugin\<close>, lines 51 to 121, parameterised likewise: \<open>except Exception\<close>
  prints an instance of \<open>Exception\<close> and returns; any other exception leaves the
  method (\<open>Inl\<close>).
\<close>

definition except_exception :: "string \<Rightarrow> state \<Rightarrow> exn \<Rightarrow> exn + state" where
  \<comment> \<open>lines 120 and 121\<close>
  "except_exception plugin_name st e =
     (case e of
        Exn msg \<Rightarrow> Inr (print (LoadError plugin_name msg) st)
      | BaseExn msg \<Rightarrow> Inl (BaseExn msg))"

definition load_plugin_with ::
  "(string \<Rightarrow> attr \<Rightarrow> state \<Rightarrow> state \<times> exn option) \<Rightarrow>
   string \<Rightarrow> plugin_fs \<Rightarrow> state \<Rightarrow> exn + state" where
  "load_plugin_with reg plugin_name d st =
     (case d ''plugin.cfg'' of
        None \<Rightarrow> Inr (print (NoConfig plugin_name) st)
      | Some config_file \<Rightarrow>
          (case try_body reg plugin_name d config_file st of
             (st', None) \<Rightarrow> Inr st'
           | (st', Some e) \<Rightarrow> except_exception plugin_name st' e))"

definition load_plugin :: "string \<Rightarrow> plugin_fs \<Rightarrow> state \<Rightarrow> exn + state" where
  "load_plugin = load_plugin_with register_routes"

text \<open>\<open>load_plugins\<close>, lines 21 to 49, as its three loops.\<close>

definition plugin_order :: "string list" where
  "plugin_order = [''ILL'', ''TTS'', ''AntiPublic-Web'']"

fun load_ordered ::
  "listing \<Rightarrow> string list \<Rightarrow> string set \<Rightarrow> state \<Rightarrow> exn + state \<times> string set" where
  \<comment> \<open>lines 34 to 38\<close>
  "load_ordered es [] loaded_plugins st = Inr (st, loaded_plugins)"
| "load_ordered es (plugin_name # ns) loaded_plugins st =
     (case map_of es plugin_name of
        Some (Directory d) \<Rightarrow>
          (case load_plugin plugin_name d st of
             Inl e \<Rightarrow> Inl e
           | Inr st' \<Rightarrow> load_ordered es ns (insert plugin_name loaded_plugins) st')
      | _ \<Rightarrow> load_ordered es ns loaded_plugins st)"

definition load_github ::
  "listing \<Rightarrow> string set \<Rightarrow> state \<Rightarrow> exn + state \<times> string set" where
  \<comment> \<open>lines 41 to 44\<close>
  "load_github es loaded_plugins st =
     (case map_of es ''GitHub'' of
        Some (Directory d) \<Rightarrow>
          (case load_plugin ''GitHub'' d st of
             Inl e \<Rightarrow> Inl e
           | Inr st' \<Rightarrow> Inr (st', insert ''GitHub'' loaded_plugins))
      | _ \<Rightarrow> Inr (st, loaded_plugins))"

fun load_rest :: "listing \<Rightarrow> string set \<Rightarrow> state \<Rightarrow> exn + state" where
  \<comment> \<open>lines 47 to 49\<close>
  "load_rest [] loaded_plugins st = Inr st"
| "load_rest ((name, e) # es) loaded_plugins st =
     (case e of
        Directory d \<Rightarrow>
          (if name \<notin> loaded_plugins
           then (case load_plugin name d st of
                   Inl x \<Rightarrow> Inl x
                 | Inr st' \<Rightarrow> load_rest es loaded_plugins st')
           else load_rest es loaded_plugins st)
      | RegularFile \<Rightarrow> load_rest es loaded_plugins st)"

definition load_plugins :: "listing option \<Rightarrow> routes \<Rightarrow> state \<Rightarrow> exn + state" where
  "load_plugins root a st0 =
     (let st = st0\<lparr>app := a\<rparr>
      in case root of
        None \<Rightarrow> Inr (print (NoPluginDir (plugin_dir st)) st)
      | Some es \<Rightarrow>
          (case load_ordered es plugin_order {} st of
             Inl e \<Rightarrow> Inl e
           | Inr (st1, loaded1) \<Rightarrow>
          (case load_github es loaded1 st1 of
             Inl e \<Rightarrow> Inl e
           | Inr (st2, loaded2) \<Rightarrow> load_rest es loaded2 st2)))"

definition get_plugin_info :: "state \<Rightarrow> string \<Rightarrow> (string, string) dict" where
  \<comment> \<open>line 125: the default \<open>{}\<close> of the outer \<open>get\<close> has no key \<open>info\<close>, so the inner
      \<open>get\<close> gives its own default \<open>{}\<close>; a record has the key\<close>
  "get_plugin_info st plugin_name =
     (case map_of (plugins st) plugin_name of
        None \<Rightarrow> []
      | Some r \<Rightarrow> info r)"

definition list_plugins :: "state \<Rightarrow> string list" where
  "list_plugins st = dict_keys (plugins st)"

section \<open>Notions of the specification\<close>

text \<open>
  Every path through \<open>_load_plugin\<close> that returns prints one line, which names the
  plugin. The plugins attempted are read off the output.
\<close>

fun line_plugin :: "line \<Rightarrow> string option" where
  "line_plugin (NoPluginDir dir) = None"
| "line_plugin (NoConfig n) = Some n"
| "line_plugin (NoMainFile n f) = Some n"
| "line_plugin (Registered n) = Some n"
| "line_plugin (NoRegisterFunction n f) = Some n"
| "line_plugin (LoadError n msg) = Some n"

fun attempted :: "line list \<Rightarrow> string list" where
  "attempted [] = []"
| "attempted (l # ls) =
     (case line_plugin l of None \<Rightarrow> attempted ls | Some n \<Rightarrow> n # attempted ls)"

text \<open>
  The order of discovery: the names of a list that are directories of the root, in the
  order of the list; the subdirectories of the root, in the order of enumeration; and
  the three phases one after the other.
\<close>

fun existing :: "listing \<Rightarrow> string list \<Rightarrow> (string \<times> plugin_fs) list" where
  "existing es [] = []"
| "existing es (n # ns) =
     (case map_of es n of
        Some (Directory d) \<Rightarrow> (n, d) # existing es ns
      | _ \<Rightarrow> existing es ns)"

fun subdirs :: "listing \<Rightarrow> (string \<times> plugin_fs) list" where
  "subdirs [] = []"
| "subdirs ((n, Directory d) # es) = (n, d) # subdirs es"
| "subdirs ((n, RegularFile) # es) = subdirs es"

definition spec_order :: "listing \<Rightarrow> (string \<times> plugin_fs) list" where
  "spec_order es =
     (let known = existing es [''ILL'', ''TTS'', ''AntiPublic-Web''] @ existing es [''GitHub'']
      in known @ filter (\<lambda>(n, d). n \<notin> set (map fst known)) (subdirs es))"

text \<open>The same order, as the names of the plugins.\<close>

definition spec_attempts :: "listing \<Rightarrow> string list" where
  "spec_attempts es =
     (let first = filter (is_dir es) [''ILL'', ''TTS'', ''AntiPublic-Web''];
          second = filter (is_dir es) [''GitHub'']
      in first @ second @ filter (\<lambda>n. n \<notin> set (first @ second)) (map fst (subdirs es)))"

text \<open>Attempting the plugins of a list one after the other.\<close>

fun attempt_all :: "(string \<times> plugin_fs) list \<Rightarrow> state \<Rightarrow> exn + state" where
  "attempt_all [] st = Inr st"
| "attempt_all ((n, d) # ps) st =
     (case load_plugin n d st of Inl e \<Rightarrow> Inl e | Inr st' \<Rightarrow> attempt_all ps st')"

text \<open>
  The full load sequence of a plugin completes without error: the manifest file is
  present and is read and parsed, the entry file is found, the entry module is made
  and executed, and the registration function, when the module has that symbol,
  returns without raising.
\<close>

definition completes :: "string \<Rightarrow> plugin_fs \<Rightarrow> state \<Rightarrow> bool" where
  "completes n d st =
     (case d ''plugin.cfg'' of None \<Rightarrow> False | Some c \<Rightarrow>
     (case file_lines c of Inl e \<Rightarrow> False | Inr ls \<Rightarrow>
     (case read_config ls of Inl e \<Rightarrow> False | Inr plugin_info \<Rightarrow>
     (case d (main_file_name plugin_info n) of None \<Rightarrow> False | Some f \<Rightarrow>
     (case module_spec f of Some e \<Rightarrow> False | None \<Rightarrow>
     (case exec_module f of Inl e \<Rightarrow> False | Inr m \<Rightarrow>
     (case m (register_function_name n) of
        None \<Rightarrow> True
      | Some g \<Rightarrow> snd (call g (app st)) = None)))))))"

text \<open>The plugins of a list that complete, each in the state its attempt starts in.\<close>

fun completed :: "(string \<times> plugin_fs) list \<Rightarrow> state \<Rightarrow> string list" where
  "completed [] st = []"
| "completed ((n, d) # ps) st =
     (case load_plugin n d st of
        Inl e \<Rightarrow> []
      | Inr st' \<Rightarrow> (if completes n d st then [n] else []) @ completed ps st')"

section \<open>Example plugins\<close>

text \<open>
  A registration function that adds one route, and one that raises. A manifest that is
  no Python source, and a source file whose execution gives a module. A plugin
  directory with these two files.
\<close>

definition adds_route :: "string \<Rightarrow> attr" where
  "adds_route r = Callable (\<lambda>a. (a @ [r], None))"

definition raises :: "exn \<Rightarrow> attr" where
  "raises e = Callable (\<lambda>a. (a, Some e))"

definition manifest_file :: node where
  "manifest_file =
     \<lparr>file_lines = Inr [''# manifest'', ''plugin_main_file = main.py'',
                          '' plugin_version=1.0'', ''no separator'', ''plugin_version = 1.1 ''],
      module_spec = Some (Exn ''AttributeError''),
      exec_module = Inl (Exn ''AttributeError'')\<rparr>"

definition source_file :: "pymodule \<Rightarrow> node" where
  "source_file m = \<lparr>file_lines = Inr [], module_spec = None, exec_module = Inr m\<rparr>"

definition plugin_of :: "pymodule \<Rightarrow> plugin_fs" where
  "plugin_of m = [''plugin.cfg'' \<mapsto> manifest_file, ''main.py'' \<mapsto> source_file m]"

text \<open>
  The root of the specification's example: the directories \<open>TTS\<close>, \<open>GitHub\<close>, \<open>X\<close>
  and \<open>ILL\<close>, enumerated in this order, and no \<open>AntiPublic-Web\<close>. The registration
  function of \<open>ILL\<close> raises, and \<open>X\<close> has none.
\<close>

definition example_root :: listing where
  "example_root =
     [(''TTS'', Directory (plugin_of [''register_tts_routes'' \<mapsto> adds_route ''/tts''])),
      (''GitHub'',
         Directory (plugin_of [''register_github_routes'' \<mapsto> adds_route ''/{path}''])),
      (''X'', Directory (plugin_of Map.empty)),
      (''ILL'', Directory (plugin_of [''register_ill_routes'' \<mapsto> raises (Exn ''boom'')]))]"


section \<open>Properties of the manifest reader\<close>

lemma map_of_dict_set: "map_of (dict_set d k v) = (map_of d)(k \<mapsto> v)"
  by (induction d k v rule: dict_set.induct) auto

lemma unpack2_split1:
  "sep \<in> set s \<Longrightarrow>
   unpack2 (split1 sep s) =
     Inr (takeWhile (\<lambda>c. c \<noteq> sep) s, tl (dropWhile (\<lambda>c. c \<noteq> sep) s))"
  by (simp add: unpack2_def split1_def)

lemma read_config_loop_spec:
  "\<exists>d. read_config_loop ls acc = Inr d \<and>
       map_of d = map_of acc ++ map_of (rev (spec_pairs ls))"
proof (induction ls arbitrary: acc)
  case Nil
  show ?case by (simp add: spec_pairs_def)
next
  case (Cons l ls)
  show ?case
  proof (cases "spec_skipped (strip l)")
    case True
    then have skip: "\<not> (CHR ''='' \<in> set (strip l) \<and> \<not> startswith_hash (strip l))"
      by (auto simp: spec_skipped_def)
    from True have sp: "spec_pairs (l # ls) = spec_pairs ls"
      by (simp add: spec_pairs_def)
    from skip have "read_config_loop (l # ls) acc = read_config_loop ls acc"
      by (auto simp: Let_def)
    with sp Cons.IH [of acc] show ?thesis
      by simp
  next
    case False
    then have keep: "CHR ''='' \<in> set (strip l)" "\<not> startswith_hash (strip l)"
      by (auto simp: spec_skipped_def)
    obtain k v where kv: "spec_pair (strip l) = (k, v)"
      by (cases "spec_pair (strip l)")
    from False have sp: "spec_pairs (l # ls) = (k, v) # spec_pairs ls"
      by (simp add: spec_pairs_def kv)
    from kv have step:
      "read_config_loop (l # ls) acc = read_config_loop ls (dict_set acc k v)"
      using keep by (simp add: Let_def unpack2_split1 spec_pair_def)
    from Cons.IH [of "dict_set acc k v"] obtain d
      where d: "read_config_loop ls (dict_set acc k v) = Inr d"
        "map_of d = map_of (dict_set acc k v) ++ map_of (rev (spec_pairs ls))"
      by blast
    have "map_of (dict_set acc k v) ++ map_of (rev (spec_pairs ls))
          = map_of acc ++ map_of (rev (spec_pairs (l # ls)))"
      by (simp add: sp map_of_dict_set map_add_def fun_eq_iff split: option.splits)
    with d step show ?thesis by simp
  qed
qed


section \<open>One attempt to load a plugin\<close>

lemma register_routes_other: "register_routes n f st = register_other n f st"
  by (auto simp: register_routes_def register_github_def register_other_def)

lemma read_config_total: "\<exists>d. read_config ls = Inr d"
  using read_config_loop_spec [of ls "[]"] by (auto simp: read_config_def)

lemmas lp_defs = load_plugin_def load_plugin_with_def try_body_def register_routes_other
  register_other_def Let_def

lemma lp_no_config:
  "d ''plugin.cfg'' = None \<Longrightarrow> load_plugin n d st = Inr (print (NoConfig n) st)"
  by (simp add: lp_defs)

lemma lp_unreadable:
  "d ''plugin.cfg'' = Some c \<Longrightarrow> file_lines c = Inl e \<Longrightarrow>
   load_plugin n d st = except_exception n st e"
  by (simp add: lp_defs)

lemma lp_no_main:
  "d ''plugin.cfg'' = Some c \<Longrightarrow> file_lines c = Inr ls \<Longrightarrow> read_config ls = Inr pi \<Longrightarrow>
   d (main_file_name pi n) = None \<Longrightarrow>
   load_plugin n d st = Inr (print (NoMainFile n (main_file_name pi n)) st)"
  by (simp add: lp_defs)

lemma lp_no_module:
  "d ''plugin.cfg'' = Some c \<Longrightarrow> file_lines c = Inr ls \<Longrightarrow> read_config ls = Inr pi \<Longrightarrow>
   d (main_file_name pi n) = Some f \<Longrightarrow> module_spec f = Some e \<Longrightarrow>
   load_plugin n d st = except_exception n st e"
  by (simp add: lp_defs)

lemma lp_exec_raises:
  "d ''plugin.cfg'' = Some c \<Longrightarrow> file_lines c = Inr ls \<Longrightarrow> read_config ls = Inr pi \<Longrightarrow>
   d (main_file_name pi n) = Some f \<Longrightarrow> module_spec f = None \<Longrightarrow> exec_module f = Inl e \<Longrightarrow>
   load_plugin n d st =
     except_exception n (st\<lparr>sys_path := sys_path_add (path_str (plugin_dir st) n) (sys_path st)\<rparr>) e"
  by (simp add: lp_defs)

lemma lp_no_symbol:
  "d ''plugin.cfg'' = Some c \<Longrightarrow> file_lines c = Inr ls \<Longrightarrow> read_config ls = Inr pi \<Longrightarrow>
   d (main_file_name pi n) = Some f \<Longrightarrow> module_spec f = None \<Longrightarrow> exec_module f = Inr m \<Longrightarrow>
   m (register_function_name n) = None \<Longrightarrow>
   load_plugin n d st =
     Inr (st\<lparr>sys_path := sys_path_add (path_str (plugin_dir st) n) (sys_path st),
             stdout := stdout st @ [NoRegisterFunction n (register_function_name n)],
             plugins := dict_set (plugins st) n
               \<lparr>info = pi, pmodule = m, path = path_str (plugin_dir st) n\<rparr>\<rparr>)"
  by (simp add: lp_defs print_def)

lemma lp_registered:
  "d ''plugin.cfg'' = Some c \<Longrightarrow> file_lines c = Inr ls \<Longrightarrow> read_config ls = Inr pi \<Longrightarrow>
   d (main_file_name pi n) = Some f \<Longrightarrow> module_spec f = None \<Longrightarrow> exec_module f = Inr m \<Longrightarrow>
   m (register_function_name n) = Some g \<Longrightarrow> call g (app st) = (a, None) \<Longrightarrow>
   load_plugin n d st =
     Inr (st\<lparr>sys_path := sys_path_add (path_str (plugin_dir st) n) (sys_path st),
             app := a,
             stdout := stdout st @ [Registered n],
             plugins := dict_set (plugins st) n
               \<lparr>info = pi, pmodule = m, path = path_str (plugin_dir st) n\<rparr>\<rparr>)"
  by (simp add: lp_defs print_def)

lemma lp_register_raises:
  "d ''plugin.cfg'' = Some c \<Longrightarrow> file_lines c = Inr ls \<Longrightarrow> read_config ls = Inr pi \<Longrightarrow>
   d (main_file_name pi n) = Some f \<Longrightarrow> module_spec f = None \<Longrightarrow> exec_module f = Inr m \<Longrightarrow>
   m (register_function_name n) = Some g \<Longrightarrow> call g (app st) = (a, Some e) \<Longrightarrow>
   load_plugin n d st =
     except_exception n
       (st\<lparr>sys_path := sys_path_add (path_str (plugin_dir st) n) (sys_path st), app := a\<rparr>) e"
  by (simp add: lp_defs print_def)


lemma completes_None: "d ''plugin.cfg'' = None \<Longrightarrow> \<not> completes n d st"
  by (simp add: completes_def)

lemma completes_unreadable:
  "d ''plugin.cfg'' = Some c \<Longrightarrow> file_lines c = Inl e \<Longrightarrow> \<not> completes n d st"
  by (simp add: completes_def)

lemma completes_no_main:
  "d ''plugin.cfg'' = Some c \<Longrightarrow> file_lines c = Inr ls \<Longrightarrow> read_config ls = Inr pi \<Longrightarrow>
   d (main_file_name pi n) = None \<Longrightarrow> \<not> completes n d st"
  by (simp add: completes_def)

lemma completes_no_module:
  "d ''plugin.cfg'' = Some c \<Longrightarrow> file_lines c = Inr ls \<Longrightarrow> read_config ls = Inr pi \<Longrightarrow>
   d (main_file_name pi n) = Some f \<Longrightarrow> module_spec f = Some e \<Longrightarrow> \<not> completes n d st"
  by (simp add: completes_def)

lemma completes_exec_raises:
  "d ''plugin.cfg'' = Some c \<Longrightarrow> file_lines c = Inr ls \<Longrightarrow> read_config ls = Inr pi \<Longrightarrow>
   d (main_file_name pi n) = Some f \<Longrightarrow> module_spec f = None \<Longrightarrow> exec_module f = Inl e \<Longrightarrow>
   \<not> completes n d st"
  by (simp add: completes_def)

lemma completes_no_symbol:
  "d ''plugin.cfg'' = Some c \<Longrightarrow> file_lines c = Inr ls \<Longrightarrow> read_config ls = Inr pi \<Longrightarrow>
   d (main_file_name pi n) = Some f \<Longrightarrow> module_spec f = None \<Longrightarrow> exec_module f = Inr m \<Longrightarrow>
   m (register_function_name n) = None \<Longrightarrow> completes n d st"
  by (simp add: completes_def)

lemma completes_called:
  "d ''plugin.cfg'' = Some c \<Longrightarrow> file_lines c = Inr ls \<Longrightarrow> read_config ls = Inr pi \<Longrightarrow>
   d (main_file_name pi n) = Some f \<Longrightarrow> module_spec f = None \<Longrightarrow> exec_module f = Inr m \<Longrightarrow>
   m (register_function_name n) = Some g \<Longrightarrow> call g (app st) = (a, x) \<Longrightarrow>
   completes n d st = (x = None)"
  by (simp add: completes_def)

lemma load_plugin_outcome:
  "(\<exists>msg. load_plugin n d st = Inl (BaseExn msg)) \<or>
   (\<exists>st' l. load_plugin n d st = Inr st' \<and>
      stdout st' = stdout st @ [l] \<and> line_plugin l = Some n \<and>
      plugin_dir st' = plugin_dir st \<and>
      (sys_path st' = sys_path st \<or>
       sys_path st' = sys_path_add (path_str (plugin_dir st) n) (sys_path st)) \<and>
      (if completes n d st
       then \<exists>c ls plugin_info m.
              d ''plugin.cfg'' = Some c \<and> file_lines c = Inr ls \<and>
              read_config ls = Inr plugin_info \<and>
              sys_path st' = sys_path_add (path_str (plugin_dir st) n) (sys_path st) \<and>
              plugins st' =
                dict_set (plugins st) n
                  \<lparr>info = plugin_info, pmodule = m, path = path_str (plugin_dir st) n\<rparr>
       else plugins st' = plugins st))"
proof (cases "d ''plugin.cfg''")
  case None
  from lp_no_config [where d=d and n=n and st=st, OF None]
    completes_None [where d=d and n=n and st=st, OF None]
  show ?thesis by (simp add: print_def)
next
  case c: (Some c)
  show ?thesis
  proof (cases "file_lines c")
    case (Inl e)
    from lp_unreadable [where d=d and n=n and st=st, OF c Inl]
      completes_unreadable [where d=d and n=n and st=st, OF c Inl]
    show ?thesis
      by (cases e) (simp_all add: except_exception_def print_def)
  next
    case ls: (Inr ls)
    obtain pi where pi: "read_config ls = Inr pi"
      using read_config_total by blast
    show ?thesis
    proof (cases "d (main_file_name pi n)")
      case None
      from lp_no_main [where d=d and n=n and st=st, OF c ls pi None]
        completes_no_main [where d=d and n=n and st=st, OF c ls pi None]
      show ?thesis by (simp add: print_def)
    next
      case f: (Some f)
      show ?thesis
      proof (cases "module_spec f")
        case (Some e)
        from lp_no_module [where d=d and n=n and st=st, OF c ls pi f Some]
          completes_no_module [where d=d and n=n and st=st, OF c ls pi f Some]
        show ?thesis
          by (cases e) (simp_all add: except_exception_def print_def)
      next
        case ms: None
        show ?thesis
        proof (cases "exec_module f")
          case (Inl e)
          from lp_exec_raises [where d=d and n=n and st=st, OF c ls pi f ms Inl]
            completes_exec_raises [where d=d and n=n and st=st, OF c ls pi f ms Inl]
          show ?thesis
            by (cases e) (simp_all add: except_exception_def print_def)
        next
          case m: (Inr m)
          show ?thesis
          proof (cases "m (register_function_name n)")
            case None
            from lp_no_symbol [where d=d and n=n and st=st, OF c ls pi f ms m None]
              completes_no_symbol [where d=d and n=n and st=st, OF c ls pi f ms m None]
              c ls pi
            show ?thesis by auto
          next
            case g: (Some g)
            obtain a x where cl: "call g (app st) = (a, x)"
              by (cases "call g (app st)")
            show ?thesis
            proof (cases x)
              case None
              with cl have cl': "call g (app st) = (a, None)" by simp
              from lp_registered [where d=d and n=n and st=st, OF c ls pi f ms m g cl']
                completes_called [where d=d and n=n and st=st, OF c ls pi f ms m g cl']
                c ls pi
              show ?thesis by auto
            next
              case (Some e)
              with cl have cl': "call g (app st) = (a, Some e)" by simp
              from lp_register_raises [where d=d and n=n and st=st, OF c ls pi f ms m g cl']
                completes_called [where d=d and n=n and st=st, OF c ls pi f ms m g cl']
              show ?thesis
                by (cases e) (simp_all add: except_exception_def print_def)
            qed
          qed
        qed
      qed
    qed
  qed
qed

section \<open>The order of the attempts\<close>

lemma attempt_all_append:
  "attempt_all (ps @ qs) st =
     (case attempt_all ps st of Inl e \<Rightarrow> Inl e | Inr st' \<Rightarrow> attempt_all qs st')"
  by (induction ps arbitrary: st) (auto split: sum.splits)

lemma load_ordered_attempts:
  "load_ordered es ns loaded st =
     (case attempt_all (existing es ns) st of
        Inl e \<Rightarrow> Inl e
      | Inr st' \<Rightarrow> Inr (st', loaded \<union> set (map fst (existing es ns))))"
  by (induction ns arbitrary: loaded st)
     (auto split: sum.splits option.splits entry.splits)

lemma load_github_attempts:
  "load_github es loaded st =
     (case attempt_all (existing es [''GitHub'']) st of
        Inl e \<Rightarrow> Inl e
      | Inr st' \<Rightarrow> Inr (st', loaded \<union> set (map fst (existing es [''GitHub'']))))"
  by (auto simp: load_github_def split: sum.splits option.splits entry.splits)

lemma load_rest_attempts:
  "load_rest es loaded st = attempt_all (filter (\<lambda>(n, d). n \<notin> loaded) (subdirs es)) st"
  by (induction es loaded st rule: load_rest.induct)
     (auto split: sum.splits entry.splits)

lemma load_plugins_attempts:
  "load_plugins (Some es) a st = attempt_all (spec_order es) (st\<lparr>app := a\<rparr>)"
  unfolding load_plugins_def spec_order_def Let_def plugin_order_def
  by (simp add: load_ordered_attempts load_github_attempts load_rest_attempts
        attempt_all_append del: existing.simps split: sum.splits)

lemma map_fst_existing: "map fst (existing es ns) = filter (is_dir es) ns"
  by (induction ns) (auto simp: is_dir_def split: option.splits entry.splits)

lemma spec_order_names: "map fst (spec_order es) = spec_attempts es"
  unfolding spec_order_def spec_attempts_def Let_def
  by (simp add: map_fst_existing filter_map o_def case_prod_unfold del: existing.simps)

lemma attempted_append: "attempted (xs @ ys) = attempted xs @ attempted ys"
  by (induction xs) (auto split: option.splits)


lemma load_plugin_attempted:
  "load_plugin n d st = Inr st' \<Longrightarrow> attempted (stdout st') = attempted (stdout st) @ [n]"
  using load_plugin_outcome [of n d st] by (auto simp: attempted_append)

lemma load_plugin_plugins:
  "load_plugin n d st = Inr st' \<Longrightarrow>
   (if completes n d st then \<exists>r. plugins st' = dict_set (plugins st) n r
    else plugins st' = plugins st)"
  using load_plugin_outcome [of n d st] by (auto split: if_splits)

lemma load_plugin_sys_path:
  "load_plugin n d st = Inr st' \<Longrightarrow>
   sys_path st' = sys_path st \<or>
   sys_path st' = sys_path_add (path_str (plugin_dir st) n) (sys_path st)"
  using load_plugin_outcome [of n d st] by auto


lemma attempt_all_attempted:
  "attempt_all ps st = Inr st' \<Longrightarrow>
   attempted (stdout st') = attempted (stdout st) @ map fst ps"
  by (induction ps st rule: attempt_all.induct)
     (auto split: sum.splits dest: load_plugin_attempted)

lemma set_dict_set: "set (dict_keys (dict_set d k v)) = insert k (set (dict_keys d))"
  by (induction d k v rule: dict_set.induct) (auto simp: dict_keys_def)

lemma load_plugin_keys:
  "load_plugin n d st = Inr st' \<Longrightarrow>
   set (dict_keys (plugins st')) =
     set (dict_keys (plugins st)) \<union> (if completes n d st then {n} else {})"
  using load_plugin_plugins [of n d st st'] by (auto simp: set_dict_set split: if_splits)

lemma attempt_all_keys:
  "attempt_all ps st = Inr st' \<Longrightarrow>
   set (dict_keys (plugins st')) = set (dict_keys (plugins st)) \<union> set (completed ps st)"
proof (induction ps st rule: attempt_all.induct)
  case (1 st)
  then show ?case by simp
next
  case (2 n d ps st)
  from "2.prems" obtain st1 where st1: "load_plugin n d st = Inr st1"
    and rest: "attempt_all ps st1 = Inr st'"
    by (auto split: sum.splits)
  from "2.IH" [OF st1 rest] load_plugin_keys [OF st1] st1
  show ?case by auto
qed

section \<open>Evaluating the examples\<close>

lemma example_names:
  "register_function_name ''TTS'' = ''register_tts_routes''"
  "register_function_name ''ILL'' = ''register_ill_routes''"
  "register_function_name ''GitHub'' = ''register_github_routes''"
  "register_function_name ''X'' = ''register_x_routes''"
  "register_function_name ''AntiPublic-Web'' = ''register_antipublic_web_routes''"
  by code_simp+

lemma example_manifest:
  "read_config [''# manifest'', ''plugin_main_file = main.py'',
                '' plugin_version=1.0'', ''no separator'', ''plugin_version = 1.1 ''] =
     Inr [(''plugin_main_file'', ''main.py''), (''plugin_version'', ''1.1'')]"
  by code_simp

lemmas example_defs = load_plugins_def plugin_order_def load_github_def init_def
  lp_defs plugin_of_def manifest_file_def source_file_def main_file_name_def dict_get_def
  print_def except_exception_def call_def adds_route_def raises_def sys_path_add_def
  path_str_def list_plugins_def dict_keys_def example_manifest example_names

lemma example_run:
  "load_plugins (Some example_root) [] (init ''plugin'' [] []) =
     Inr \<lparr>plugin_dir = ''plugin'',
          plugins =
            [(''TTS'', \<lparr>info = [(''plugin_main_file'', ''main.py''), (''plugin_version'', ''1.1'')],
                        pmodule = [''register_tts_routes'' \<mapsto> adds_route ''/tts''],
                        path = ''plugin/TTS''\<rparr>),
             (''GitHub'', \<lparr>info = [(''plugin_main_file'', ''main.py''), (''plugin_version'', ''1.1'')],
                        pmodule = [''register_github_routes'' \<mapsto> adds_route ''/{path}''],
                        path = ''plugin/GitHub''\<rparr>),
             (''X'', \<lparr>info = [(''plugin_main_file'', ''main.py''), (''plugin_version'', ''1.1'')],
                        pmodule = Map.empty,
                        path = ''plugin/X''\<rparr>)],
          app = [''/tts'', ''/{path}''],
          sys_path = [''plugin/X'', ''plugin/GitHub'', ''plugin/TTS'', ''plugin/ILL''],
          stdout = [LoadError ''ILL'' ''boom'', Registered ''TTS'', Registered ''GitHub'',
                    NoRegisterFunction ''X'' ''register_x_routes'']\<rparr>"
  by (simp add: example_defs example_root_def)


lemma example_completed:
  "completed (spec_order example_root) (init ''plugin'' [] []) = [''TTS'', ''GitHub'', ''X'']"
  by (simp add: spec_order_def example_defs example_root_def completes_def)

lemma example_attempts: "spec_attempts example_root = [''ILL'', ''TTS'', ''GitHub'', ''X'']"
  by (simp add: spec_attempts_def is_dir_def example_root_def)



section \<open>The order of loading, the registry and failures\<close>

lemma load_plugins_None:
  "load_plugins None a st = Inr (print (NoPluginDir (plugin_dir st)) (st\<lparr>app := a\<rparr>))"
  by (simp add: load_plugins_def)

text \<open>
  C1. \<open>load_plugins\<close> on a root that exists is the attempt, one plugin after the
  other, of the plugins in this order: the names \<open>ILL\<close>, \<open>TTS\<close>, \<open>AntiPublic-Web\<close>
  that are directories of the root, in this order; then \<open>GitHub\<close> if it is a
  directory of the root; then the other subdirectories in the order of enumeration. When
  it returns, the lines printed name the plugins in that order.
\<close>

theorem load_plugins_order:
  "load_plugins (Some es) a st = attempt_all (spec_order es) (st\<lparr>app := a\<rparr>) \<and>
   map fst (spec_order es) = spec_attempts es \<and>
   (\<forall>st'. load_plugins (Some es) a st = Inr st' \<longrightarrow>
      attempted (stdout st') = attempted (stdout st) @ spec_attempts es)"
proof (intro conjI allI impI)
  show eq: "load_plugins (Some es) a st = attempt_all (spec_order es) (st\<lparr>app := a\<rparr>)"
    by (rule load_plugins_attempts)
  show "map fst (spec_order es) = spec_attempts es"
    by (rule spec_order_names)
  fix st' assume "load_plugins (Some es) a st = Inr st'"
  with eq have "attempt_all (spec_order es) (st\<lparr>app := a\<rparr>) = Inr st'" by simp
  from attempt_all_attempted [OF this]
  show "attempted (stdout st') = attempted (stdout st) @ spec_attempts es"
    by (simp add: spec_order_names)
qed

theorem load_plugins_order_witness:
  "spec_attempts example_root = [''ILL'', ''TTS'', ''GitHub'', ''X''] \<and>
   ''AntiPublic-Web'' \<notin> set (spec_attempts example_root) \<and>
   (\<exists>st'. load_plugins (Some example_root) [] (init ''plugin'' [] []) = Inr st' \<and>
      attempted (stdout st') = [''ILL'', ''TTS'', ''GitHub'', ''X''])"
proof -
  obtain st' where run: "load_plugins (Some example_root) [] (init ''plugin'' [] []) = Inr st'"
    using example_run by blast
  from load_plugins_order [of example_root "[]" "init ''plugin'' [] []"] run
  have "attempted (stdout st') =
          attempted (stdout (init ''plugin'' [] [])) @ spec_attempts example_root"
    by blast
  then have "attempted (stdout st') = [''ILL'', ''TTS'', ''GitHub'', ''X'']"
    by (simp add: init_def example_attempts)
  with run show ?thesis
    by (simp add: example_attempts)
qed

lemma attempt_all_root_keys:
  "load_plugins root a st = Inr st' \<Longrightarrow>
   set (list_plugins st') =
     set (list_plugins st) \<union>
     set (completed (case root of None \<Rightarrow> [] | Some es \<Rightarrow> spec_order es) (st\<lparr>app := a\<rparr>))"
proof (cases root)
  case None
  then show "load_plugins root a st = Inr st' \<Longrightarrow> ?thesis"
    by (auto simp: load_plugins_None print_def list_plugins_def)
next
  case (Some es)
  assume "load_plugins root a st = Inr st'"
  with Some have "attempt_all (spec_order es) (st\<lparr>app := a\<rparr>) = Inr st'"
    by (simp add: load_plugins_attempts)
  from attempt_all_keys [OF this] Some show ?thesis
    by (simp add: list_plugins_def)
qed

text \<open>
  C2. When an attempt to load a plugin returns, the registry has gained the record of
  that plugin, with the parsed manifest, the module and the path, if the full load
  sequence completed, and is unchanged otherwise; so it is unchanged when the
  registration function raises. When \<open>load_plugins\<close> returns, the names in the
  registry are those it had and those of the plugins whose sequence completed.
\<close>

theorem registry_holds_completed_plugins:
  "(\<forall>st'. load_plugin n d st = Inr st' \<longrightarrow>
      (if completes n d st
       then \<exists>c ls plugin_info m.
              d ''plugin.cfg'' = Some c \<and> file_lines c = Inr ls \<and>
              read_config ls = Inr plugin_info \<and>
              plugins st' =
                dict_set (plugins st) n
                  \<lparr>info = plugin_info, pmodule = m, path = path_str (plugin_dir st) n\<rparr>
       else plugins st' = plugins st)) \<and>
   (\<forall>c ls plugin_info f m g a' e st'.
      d ''plugin.cfg'' = Some c \<and> file_lines c = Inr ls \<and>
      read_config ls = Inr plugin_info \<and> d (main_file_name plugin_info n) = Some f \<and>
      module_spec f = None \<and> exec_module f = Inr m \<and>
      m (register_function_name n) = Some g \<and> call g (app st) = (a', Some e) \<and>
      load_plugin n d st = Inr st' \<longrightarrow>
      plugins st' = plugins st) \<and>
   (\<forall>st'. load_plugins root a st = Inr st' \<longrightarrow>
      set (list_plugins st') =
        set (list_plugins st) \<union>
        set (completed (case root of None \<Rightarrow> [] | Some es \<Rightarrow> spec_order es)
               (st\<lparr>app := a\<rparr>)))"
proof (intro conjI allI impI)
  fix st' assume r: "load_plugin n d st = Inr st'"
  with load_plugin_outcome [of n d st]
  show "if completes n d st
       then \<exists>c ls plugin_info m.
              d ''plugin.cfg'' = Some c \<and> file_lines c = Inr ls \<and>
              read_config ls = Inr plugin_info \<and>
              plugins st' =
                dict_set (plugins st) n
                  \<lparr>info = plugin_info, pmodule = m, path = path_str (plugin_dir st) n\<rparr>
       else plugins st' = plugins st"
    by (auto split: if_splits)
next
  fix c ls plugin_info f m g a' e st'
  assume h: "d ''plugin.cfg'' = Some c \<and> file_lines c = Inr ls \<and>
      read_config ls = Inr plugin_info \<and> d (main_file_name plugin_info n) = Some f \<and>
      module_spec f = None \<and> exec_module f = Inr m \<and>
      m (register_function_name n) = Some g \<and> call g (app st) = (a', Some e) \<and>
      load_plugin n d st = Inr st'"
  then have "\<not> completes n d st"
    using completes_called [where d=d and n=n and st=st and x="Some e"] by simp
  with h load_plugin_plugins [of n d st st'] show "plugins st' = plugins st"
    by simp
next
  fix st' assume "load_plugins root a st = Inr st'"
  then show "set (list_plugins st') =
        set (list_plugins st) \<union>
        set (completed (case root of None \<Rightarrow> [] | Some es \<Rightarrow> spec_order es)
               (st\<lparr>app := a\<rparr>))"
    by (rule attempt_all_root_keys)
qed

theorem registry_holds_completed_plugins_witness:
  "completed (spec_order example_root) (init ''plugin'' [] []) = [''TTS'', ''GitHub'', ''X''] \<and>
   (\<exists>st'. load_plugins (Some example_root) [] (init ''plugin'' [] []) = Inr st' \<and>
      set (list_plugins st') = {''TTS'', ''GitHub'', ''X''} \<and>
      ''ILL'' \<notin> set (list_plugins st'))"
proof -
  obtain st' where run: "load_plugins (Some example_root) [] (init ''plugin'' [] []) = Inr st'"
    using example_run by blast
  from registry_holds_completed_plugins
         [where st="init ''plugin'' [] []" and root="Some example_root" and a="[]"] run
  have "set (list_plugins st') =
          set (list_plugins (init ''plugin'' [] [])) \<union>
          set (completed (spec_order example_root) ((init ''plugin'' [] [])\<lparr>app := []\<rparr>))"
    by simp
  also have "(init ''plugin'' [] [])\<lparr>app := []\<rparr> = init ''plugin'' [] []"
    by (simp add: init_def)
  finally have "set (list_plugins st') = {''TTS'', ''GitHub'', ''X''}"
    by (simp add: example_completed) (simp add: init_def list_plugins_def dict_keys_def)
  with run show ?thesis
    by (simp add: example_completed)
qed




text \<open>
  C5. The symbol looked up is \<open>register_\<close>, the plugin's name in lower case with every
  hyphen replaced by an underscore, \<open>_routes\<close>. When the module of a plugin does not
  have that symbol, nothing is called: the attempt returns, the dispatch surface is
  unchanged, the plugin is in the registry with its manifest and is listed, and the
  line printed says that the function was not found.
\<close>

theorem missing_registration_symbol:
  "register_function_name n =
     ''register_'' @ map (\<lambda>c. if c = CHR ''-'' then CHR ''_'' else c) (lower n) @ ''_routes'' \<and>
   (d ''plugin.cfg'' = Some c \<and> file_lines c = Inr ls \<and> read_config ls = Inr plugin_info \<and>
    d (main_file_name plugin_info n) = Some f \<and> module_spec f = None \<and>
    exec_module f = Inr m \<and> m (register_function_name n) = None \<longrightarrow>
    (\<exists>st'. load_plugin n d st = Inr st' \<and>
       app st' = app st \<and>
       n \<in> set (list_plugins st') \<and>
       get_plugin_info st' n = plugin_info \<and>
       stdout st' = stdout st @ [NoRegisterFunction n (register_function_name n)]))"
proof (intro conjI impI)
  show "register_function_name n =
     ''register_'' @ map (\<lambda>c. if c = CHR ''-'' then CHR ''_'' else c) (lower n) @ ''_routes''"
    by (simp add: register_function_name_def replace_char_def)
next
  assume h: "d ''plugin.cfg'' = Some c \<and> file_lines c = Inr ls \<and>
    read_config ls = Inr plugin_info \<and>
    d (main_file_name plugin_info n) = Some f \<and> module_spec f = None \<and>
    exec_module f = Inr m \<and> m (register_function_name n) = None"
  then have "load_plugin n d st =
     Inr (st\<lparr>sys_path := sys_path_add (path_str (plugin_dir st) n) (sys_path st),
             stdout := stdout st @ [NoRegisterFunction n (register_function_name n)],
             plugins := dict_set (plugins st) n
               \<lparr>info = plugin_info, pmodule = m, path = path_str (plugin_dir st) n\<rparr>\<rparr>)"
    using lp_no_symbol [where d=d and n=n and st=st] by blast
  then show "\<exists>st'. load_plugin n d st = Inr st' \<and>
       app st' = app st \<and>
       n \<in> set (list_plugins st') \<and>
       get_plugin_info st' n = plugin_info \<and>
       stdout st' = stdout st @ [NoRegisterFunction n (register_function_name n)]"
    by (simp add: list_plugins_def set_dict_set get_plugin_info_def map_of_dict_set)
qed

theorem missing_registration_symbol_witness:
  "register_function_name ''AntiPublic-Web'' = ''register_antipublic_web_routes'' \<and>
   (\<exists>st'. load_plugin ''X'' (plugin_of Map.empty) (init ''plugin'' [''/tts''] []) = Inr st' \<and>
      app st' = [''/tts''] \<and>
      list_plugins st' = [''X''] \<and>
      get_plugin_info st' ''X'' = [(''plugin_main_file'', ''main.py''), (''plugin_version'', ''1.1'')] \<and>
      stdout st' = [NoRegisterFunction ''X'' ''register_x_routes''])"
proof -
  let ?d = "plugin_of Map.empty" and ?st = "init ''plugin'' [''/tts''] []"
  let ?info = "[(''plugin_main_file'', ''main.py''), (''plugin_version'', ''1.1'')]"
  have "?d ''plugin.cfg'' = Some manifest_file \<and>
        file_lines manifest_file =
          Inr [''# manifest'', ''plugin_main_file = main.py'',
               '' plugin_version=1.0'', ''no separator'', ''plugin_version = 1.1 ''] \<and>
        read_config [''# manifest'', ''plugin_main_file = main.py'',
               '' plugin_version=1.0'', ''no separator'', ''plugin_version = 1.1 ''] =
          Inr ?info \<and>
        ?d (main_file_name ?info ''X'') = Some (source_file Map.empty) \<and>
        module_spec (source_file Map.empty) = None \<and>
        exec_module (source_file Map.empty) = Inr Map.empty \<and>
        Map.empty (register_function_name ''X'') = None"
    by (simp add: plugin_of_def manifest_file_def source_file_def example_manifest
          main_file_name_def dict_get_def)
  with missing_registration_symbol
         [where d="?d" and n="''X''" and st="?st" and c=manifest_file and
            plugin_info="?info" and f="source_file Map.empty" and m=Map.empty]
  obtain st' where "load_plugin ''X'' ?d ?st = Inr st'" "app st' = app ?st"
    "''X'' \<in> set (list_plugins st')" "get_plugin_info st' ''X'' = ?info"
    "stdout st' = stdout ?st @ [NoRegisterFunction ''X'' (register_function_name ''X'')]"
    by blast
  moreover have "load_plugin ''X'' ?d ?st = Inr st' \<Longrightarrow> list_plugins st' = [''X'']"
    by (auto simp: example_defs)
  ultimately show ?thesis
    by (simp add: example_names init_def)
qed

text \<open>
  C6. The entry file is the value of \<open>plugin_main_file\<close> in the manifest when the key
  is there, and the plugin's name in lower case followed by \<open>.py\<close> otherwise; it is
  resolved in the plugin's directory. When it does not exist, the attempt returns with
  the registry, the dispatch surface and \<open>sys.path\<close> as they were, and the plugins
  after it are attempted.
\<close>

theorem entry_file_resolution:
  "main_file_name plugin_info n =
     (case map_of plugin_info ''plugin_main_file'' of
        Some file \<Rightarrow> file
      | None \<Rightarrow> lower n @ ''.py'') \<and>
   (d ''plugin.cfg'' = Some c \<and> file_lines c = Inr ls \<and> read_config ls = Inr plugin_info \<and>
    d (main_file_name plugin_info n) = None \<longrightarrow>
    load_plugin n d st = Inr (st\<lparr>stdout := stdout st @ [NoMainFile n (main_file_name plugin_info n)]\<rparr>) \<and>
    \<not> completes n d st \<and>
    attempt_all ((n, d) # ps) st =
      attempt_all ps (st\<lparr>stdout := stdout st @ [NoMainFile n (main_file_name plugin_info n)]\<rparr>))"
proof (intro conjI impI)
  show "main_file_name plugin_info n =
     (case map_of plugin_info ''plugin_main_file'' of
        Some file \<Rightarrow> file
      | None \<Rightarrow> lower n @ ''.py'')"
    by (simp add: main_file_name_def dict_get_def split: option.splits)
next
  assume h: "d ''plugin.cfg'' = Some c \<and> file_lines c = Inr ls \<and>
    read_config ls = Inr plugin_info \<and> d (main_file_name plugin_info n) = None"
  then show lp: "load_plugin n d st =
      Inr (st\<lparr>stdout := stdout st @ [NoMainFile n (main_file_name plugin_info n)]\<rparr>)"
    using lp_no_main [where d=d and n=n and st=st] by (simp add: print_def)
  from h show "\<not> completes n d st"
    using completes_no_main [where d=d and n=n and st=st] by blast
  from lp show "attempt_all ((n, d) # ps) st =
      attempt_all ps (st\<lparr>stdout := stdout st @ [NoMainFile n (main_file_name plugin_info n)]\<rparr>)"
    by simp
qed

theorem entry_file_resolution_witness:
  "main_file_name [(''plugin_version'', ''1.1'')] ''TTS'' = ''tts.py'' \<and>
   main_file_name [(''plugin_main_file'', ''main.py'')] ''TTS'' = ''main.py'' \<and>
   load_plugin ''TTS'' [''plugin.cfg'' \<mapsto> manifest_file] (init ''plugin'' [] []) =
     Inr ((init ''plugin'' [] [])\<lparr>stdout := [NoMainFile ''TTS'' ''main.py'']\<rparr>)"
proof -
  let ?d = "[''plugin.cfg'' \<mapsto> manifest_file]" and ?st = "init ''plugin'' [] []"
  let ?info = "[(''plugin_main_file'', ''main.py''), (''plugin_version'', ''1.1'')]"
  have low: "lower ''TTS'' = ''tts''" by code_simp
  have "?d ''plugin.cfg'' = Some manifest_file \<and>
        file_lines manifest_file =
          Inr [''# manifest'', ''plugin_main_file = main.py'',
               '' plugin_version=1.0'', ''no separator'', ''plugin_version = 1.1 ''] \<and>
        read_config [''# manifest'', ''plugin_main_file = main.py'',
               '' plugin_version=1.0'', ''no separator'', ''plugin_version = 1.1 ''] =
          Inr ?info \<and>
        ?d (main_file_name ?info ''TTS'') = None"
    by (simp add: manifest_file_def example_manifest main_file_name_def dict_get_def)
  with entry_file_resolution
         [where d="?d" and n="''TTS''" and st="?st" and c=manifest_file and plugin_info="?info"]
  have "load_plugin ''TTS'' ?d ?st =
          Inr (?st\<lparr>stdout := stdout ?st @ [NoMainFile ''TTS'' (main_file_name ?info ''TTS'')]\<rparr>)"
    by blast
  moreover have "main_file_name ?info ''TTS'' = ''main.py''"
    by (simp add: main_file_name_def dict_get_def)
  moreover
  from entry_file_resolution [of "[(''plugin_version'', ''1.1'')]" "''TTS''"]
  have "main_file_name [(''plugin_version'', ''1.1'')] ''TTS'' = ''tts.py''"
    by (simp add: low)
  moreover
  from entry_file_resolution [of "[(''plugin_main_file'', ''main.py'')]" "''TTS''"]
  have "main_file_name [(''plugin_main_file'', ''main.py'')] ''TTS'' = ''main.py''"
    by simp
  ultimately show ?thesis
    by (simp add: init_def)
qed

section \<open>The module search path\<close>

lemma count_sys_path_add:
  "count_list (sys_path_add p sp) q \<le> max 1 (count_list sp q)"
  by (auto simp: sys_path_add_def count_list_0_iff)

lemma distinct_sys_path_add: "distinct sp \<Longrightarrow> distinct (sys_path_add p sp)"
  by (simp add: sys_path_add_def)

lemma load_plugin_count:
  "load_plugin n d st = Inr st' \<Longrightarrow>
   count_list (sys_path st') q \<le> max 1 (count_list (sys_path st) q)"
  using load_plugin_sys_path [of n d st st'] count_sys_path_add [of _ "sys_path st" q]
  by auto

lemma load_plugin_distinct:
  "load_plugin n d st = Inr st' \<Longrightarrow> distinct (sys_path st) \<Longrightarrow> distinct (sys_path st')"
  using load_plugin_sys_path [of n d st st'] by (auto simp: distinct_sys_path_add)

lemma attempt_all_count:
  "attempt_all ps st = Inr st' \<Longrightarrow>
   count_list (sys_path st') q \<le> max 1 (count_list (sys_path st) q)"
proof (induction ps st rule: attempt_all.induct)
  case (1 st)
  then show ?case by simp
next
  case (2 n d ps st)
  from "2.prems" obtain st1 where st1: "load_plugin n d st = Inr st1"
    and rest: "attempt_all ps st1 = Inr st'"
    by (auto split: sum.splits)
  from "2.IH" [OF st1 rest] load_plugin_count [OF st1, of q]
  show ?case by simp
qed

lemma attempt_all_distinct:
  "attempt_all ps st = Inr st' \<Longrightarrow> distinct (sys_path st) \<Longrightarrow> distinct (sys_path st')"
  by (induction ps st rule: attempt_all.induct)
     (auto split: sum.splits dest: load_plugin_distinct)

lemma load_plugins_count:
  "load_plugins root a st = Inr st' \<Longrightarrow>
   count_list (sys_path st') q \<le> max 1 (count_list (sys_path st) q)"
proof (cases root)
  case None
  then show "load_plugins root a st = Inr st' \<Longrightarrow> ?thesis"
    by (auto simp: load_plugins_None print_def)
next
  case (Some es)
  assume "load_plugins root a st = Inr st'"
  with Some have "attempt_all (spec_order es) (st\<lparr>app := a\<rparr>) = Inr st'"
    by (simp add: load_plugins_attempts)
  from attempt_all_count [OF this] show ?thesis by simp
qed

lemma load_plugins_distinct:
  "load_plugins root a st = Inr st' \<Longrightarrow> distinct (sys_path st) \<Longrightarrow> distinct (sys_path st')"
proof (cases root)
  case None
  then show "load_plugins root a st = Inr st' \<Longrightarrow> distinct (sys_path st) \<Longrightarrow> ?thesis"
    by (auto simp: load_plugins_None print_def)
next
  case (Some es)
  assume "load_plugins root a st = Inr st'" and dist: "distinct (sys_path st)"
  with Some have "attempt_all (spec_order es) (st\<lparr>app := a\<rparr>) = Inr st'"
    by (simp add: load_plugins_attempts)
  from attempt_all_distinct [OF this] dist show ?thesis by simp
qed

text \<open>
  C7. Adding a path to \<open>sys.path\<close> changes nothing when the path is there, so
  adding it a second time changes nothing, and after the addition the path occurs once,
  or as often as it did before. An attempt to load a plugin changes \<open>sys.path\<close> by
  such an addition of the plugin's path, or not at all. So two calls of
  \<open>load_plugins\<close> in a row, on the same root or another, leave no entry of
  \<open>sys.path\<close> more often than once or than it was there before, and a \<open>sys.path\<close>
  without duplicates stays so.
\<close>

theorem sys_path_insertion_idempotent:
  "sys_path_add p (sys_path_add p sp) = sys_path_add p sp \<and>
   (p \<in> set sp \<longrightarrow> sys_path_add p sp = sp) \<and>
   count_list (sys_path_add p sp) p = max 1 (count_list sp p) \<and>
   (\<forall>n d st'. load_plugin n d st = Inr st' \<longrightarrow>
      sys_path st' = sys_path st \<or>
      sys_path st' = sys_path_add (path_str (plugin_dir st) n) (sys_path st)) \<and>
   (\<forall>st1 st2.
      load_plugins root a st = Inr st1 \<and> load_plugins root' a' st1 = Inr st2 \<longrightarrow>
      (\<forall>q. count_list (sys_path st2) q \<le> max 1 (count_list (sys_path st) q)) \<and>
      (distinct (sys_path st) \<longrightarrow> distinct (sys_path st2)))"
proof (intro conjI allI impI)
  show "sys_path_add p (sys_path_add p sp) = sys_path_add p sp"
    by (simp add: sys_path_add_def)
  show "sys_path_add p sp = sp" if "p \<in> set sp"
    using that by (simp add: sys_path_add_def)
  show "sys_path st' = sys_path st \<or>
      sys_path st' = sys_path_add (path_str (plugin_dir st) n) (sys_path st)"
    if "load_plugin n d st = Inr st'" for n d st'
    using that by (rule load_plugin_sys_path)
  show "count_list (sys_path_add p sp) p = max 1 (count_list sp p)"
    by (auto simp: sys_path_add_def count_list_0_iff max_def not_less_eq_eq [symmetric])
next
  fix st1 st2 q
  assume h: "load_plugins root a st = Inr st1 \<and> load_plugins root' a' st1 = Inr st2"
  then have "count_list (sys_path st1) q \<le> max 1 (count_list (sys_path st) q)"
    and "count_list (sys_path st2) q \<le> max 1 (count_list (sys_path st1) q)"
    by (auto dest: load_plugins_count)
  then show "count_list (sys_path st2) q \<le> max 1 (count_list (sys_path st) q)"
    by simp
next
  fix st1 st2
  assume "load_plugins root a st = Inr st1 \<and> load_plugins root' a' st1 = Inr st2"
    and "distinct (sys_path st)"
  then show "distinct (sys_path st2)"
    by (blast dest: load_plugins_distinct)
qed

theorem sys_path_insertion_idempotent_witness:
  "sys_path_add ''plugin/X'' (sys_path_add ''plugin/X'' [''plugin/TTS'']) =
     [''plugin/X'', ''plugin/TTS''] \<and>
   (\<exists>st1 st2.
      load_plugins (Some example_root) [] (init ''plugin'' [] []) = Inr st1 \<and>
      load_plugins (Some example_root) [] st1 = Inr st2 \<and>
      sys_path st1 = [''plugin/X'', ''plugin/GitHub'', ''plugin/TTS'', ''plugin/ILL''] \<and>
      sys_path st2 = [''plugin/X'', ''plugin/GitHub'', ''plugin/TTS'', ''plugin/ILL''] \<and>
      distinct (sys_path st2))"
proof -
  let ?st = "init ''plugin'' [] []"
  obtain st1 where run1: "load_plugins (Some example_root) [] ?st = Inr st1"
    and st1: "st1 = \<lparr>plugin_dir = ''plugin'',
          plugins =
            [(''TTS'', \<lparr>info = [(''plugin_main_file'', ''main.py''), (''plugin_version'', ''1.1'')],
                        pmodule = [''register_tts_routes'' \<mapsto> adds_route ''/tts''],
                        path = ''plugin/TTS''\<rparr>),
             (''GitHub'', \<lparr>info = [(''plugin_main_file'', ''main.py''), (''plugin_version'', ''1.1'')],
                        pmodule = [''register_github_routes'' \<mapsto> adds_route ''/{path}''],
                        path = ''plugin/GitHub''\<rparr>),
             (''X'', \<lparr>info = [(''plugin_main_file'', ''main.py''), (''plugin_version'', ''1.1'')],
                        pmodule = Map.empty,
                        path = ''plugin/X''\<rparr>)],
          app = [''/tts'', ''/{path}''],
          sys_path = [''plugin/X'', ''plugin/GitHub'', ''plugin/TTS'', ''plugin/ILL''],
          stdout = [LoadError ''ILL'' ''boom'', Registered ''TTS'', Registered ''GitHub'',
                    NoRegisterFunction ''X'' ''register_x_routes'']\<rparr>"
    using example_run by simp
  have "\<exists>st2. load_plugins (Some example_root) [] st1 = Inr st2 \<and>
      sys_path st2 = [''plugin/X'', ''plugin/GitHub'', ''plugin/TTS'', ''plugin/ILL'']"
    unfolding st1 by (simp add: example_defs example_root_def)
  then obtain st2 where run2: "load_plugins (Some example_root) [] st1 = Inr st2"
    and sp2: "sys_path st2 = [''plugin/X'', ''plugin/GitHub'', ''plugin/TTS'', ''plugin/ILL'']"
    by blast
  from sys_path_insertion_idempotent
         [where root="Some example_root" and root'="Some example_root" and a="[]" and a'="[]"
            and st="?st" and p="''plugin/X''" and sp="[''plugin/TTS'']"]
       run1 run2
  have "distinct (sys_path ?st) \<longrightarrow> distinct (sys_path st2)"
    and "sys_path_add ''plugin/X'' (sys_path_add ''plugin/X'' [''plugin/TTS'']) =
         sys_path_add ''plugin/X'' [''plugin/TTS'']"
    by blast+
  then have "distinct (sys_path st2)"
    and "sys_path_add ''plugin/X'' (sys_path_add ''plugin/X'' [''plugin/TTS'']) =
         [''plugin/X'', ''plugin/TTS'']"
    by (simp_all add: init_def sys_path_add_def)
  with run1 run2 sp2 st1 show ?thesis by auto
qed

section \<open>Introspection and registration\<close>

lemma map_of_None_keys: "map_of d k = None \<longleftrightarrow> k \<notin> set (dict_keys d)"
  by (simp add: dict_keys_def map_of_eq_None_iff)

text \<open>
  C8. For a name that is not in the registry \<open>get_plugin_info\<close> returns the empty
  dictionary, and for a name that is, the manifest of its record. That manifest is the
  parsed \<open>plugin.cfg\<close> of the plugin: an attempt that completes stores it, and the
  attempt of another plugin does not change it.
\<close>

theorem get_plugin_info_lookup:
  "(n \<notin> set (list_plugins st) \<longrightarrow> get_plugin_info st n = []) \<and>
   (\<forall>r. map_of (plugins st) n = Some r \<longrightarrow> get_plugin_info st n = info r) \<and>
   (\<forall>st'. load_plugin n d st = Inr st' \<and> completes n d st \<longrightarrow>
      (\<exists>c ls. d ''plugin.cfg'' = Some c \<and> file_lines c = Inr ls \<and>
         read_config ls = Inr (get_plugin_info st' n))) \<and>
   (\<forall>n' st'. load_plugin n' d st = Inr st' \<and> n' \<noteq> n \<longrightarrow>
      get_plugin_info st' n = get_plugin_info st n)"
proof (intro conjI allI impI)
  assume "n \<notin> set (list_plugins st)"
  then show "get_plugin_info st n = []"
    by (simp add: get_plugin_info_def list_plugins_def map_of_None_keys [symmetric])
next
  fix r assume "map_of (plugins st) n = Some r"
  then show "get_plugin_info st n = info r"
    by (simp add: get_plugin_info_def)
next
  fix st' assume "load_plugin n d st = Inr st' \<and> completes n d st"
  with load_plugin_outcome [of n d st]
  obtain c ls plugin_info m where "d ''plugin.cfg'' = Some c" "file_lines c = Inr ls"
    "read_config ls = Inr plugin_info"
    "plugins st' = dict_set (plugins st) n
       \<lparr>info = plugin_info, pmodule = m, path = path_str (plugin_dir st) n\<rparr>"
    by auto
  then show "\<exists>c ls. d ''plugin.cfg'' = Some c \<and> file_lines c = Inr ls \<and>
         read_config ls = Inr (get_plugin_info st' n)"
    by (simp add: get_plugin_info_def map_of_dict_set)
next
  fix n' st' assume h: "load_plugin n' d st = Inr st' \<and> n' \<noteq> n"
  with load_plugin_plugins [of n' d st st']
  have "map_of (plugins st') n = map_of (plugins st) n"
    by (auto simp: map_of_dict_set split: if_splits)
  then show "get_plugin_info st' n = get_plugin_info st n"
    by (simp add: get_plugin_info_def)
qed

theorem get_plugin_info_lookup_witness:
  "\<exists>st'. load_plugins (Some example_root) [] (init ''plugin'' [] []) = Inr st' \<and>
     get_plugin_info st' ''AntiPublic-Web'' = [] \<and>
     get_plugin_info st' ''ILL'' = [] \<and>
     get_plugin_info st' ''TTS'' =
       [(''plugin_main_file'', ''main.py''), (''plugin_version'', ''1.1'')]"
proof -
  let ?info = "[(''plugin_main_file'', ''main.py''), (''plugin_version'', ''1.1'')]"
  obtain st' where run: "load_plugins (Some example_root) [] (init ''plugin'' [] []) = Inr st'"
    and names: "list_plugins st' = [''TTS'', ''GitHub'', ''X'']"
    and tts: "map_of (plugins st') ''TTS'' =
       Some \<lparr>info = ?info,
             pmodule = [''register_tts_routes'' \<mapsto> adds_route ''/tts''],
             path = ''plugin/TTS''\<rparr>"
    using example_run by (simp add: list_plugins_def dict_keys_def)
  from get_plugin_info_lookup [where st=st' and n="''AntiPublic-Web''"] names
  have "get_plugin_info st' ''AntiPublic-Web'' = []" by simp
  moreover
  from get_plugin_info_lookup [where st=st' and n="''ILL''"] names
  have "get_plugin_info st' ''ILL'' = []" by simp
  moreover
  from get_plugin_info_lookup [where st=st' and n="''TTS''"] tts
  have "get_plugin_info st' ''TTS'' = ?info" by simp
  ultimately show ?thesis using run by simp
qed

text \<open>
  C9. The branch for the plugin named \<open>GitHub\<close> does what the branch for the other
  plugins does: the registration step does not depend on the test of the name, and
  \<open>_load_plugin\<close> is \<open>_load_plugin\<close> with the generic branch in place of the test.
\<close>

theorem registration_is_name_uniform:
  "register_github n f st = register_other n f st \<and>
   register_routes n f st = register_other n f st \<and>
   load_plugin n d st = load_plugin_with register_other n d st"
proof (intro conjI)
  show "register_github n f st = register_other n f st"
    by (simp add: register_github_def register_other_def)
  show "register_routes n f st = register_other n f st"
    by (rule register_routes_other)
  have "register_routes = register_other"
    by (intro ext) (rule register_routes_other)
  then show "load_plugin n d st = load_plugin_with register_other n d st"
    by (simp add: load_plugin_def)
qed

theorem registration_is_name_uniform_witness:
  "load_plugin ''GitHub'' (plugin_of [''register_github_routes'' \<mapsto> adds_route ''/{path}''])
     (init ''plugin'' [''/tts''] []) =
   Inr \<lparr>plugin_dir = ''plugin'',
        plugins =
          [(''GitHub'',
            \<lparr>info = [(''plugin_main_file'', ''main.py''), (''plugin_version'', ''1.1'')],
             pmodule = [''register_github_routes'' \<mapsto> adds_route ''/{path}''],
             path = ''plugin/GitHub''\<rparr>)],
        app = [''/tts'', ''/{path}''],
        sys_path = [''plugin/GitHub''],
        stdout = [Registered ''GitHub'']\<rparr>"
proof -
  let ?d = "plugin_of [''register_github_routes'' \<mapsto> adds_route ''/{path}'']"
  let ?st = "init ''plugin'' [''/tts''] []"
  have "load_plugin_with register_other ''GitHub'' ?d ?st =
   Inr \<lparr>plugin_dir = ''plugin'',
        plugins =
          [(''GitHub'',
            \<lparr>info = [(''plugin_main_file'', ''main.py''), (''plugin_version'', ''1.1'')],
             pmodule = [''register_github_routes'' \<mapsto> adds_route ''/{path}''],
             path = ''plugin/GitHub''\<rparr>)],
        app = [''/tts'', ''/{path}''],
        sys_path = [''plugin/GitHub''],
        stdout = [Registered ''GitHub'']\<rparr>"
    by (simp add: load_plugin_with_def try_body_def register_other_def Let_def init_def
          plugin_of_def manifest_file_def source_file_def main_file_name_def dict_get_def
          print_def call_def adds_route_def sys_path_add_def path_str_def
          example_manifest example_names)
  with registration_is_name_uniform [of "''GitHub''" _ ?st ?d]
  show ?thesis by simp
qed

text \<open>
  C10. When the module has the symbol and its value is not callable, the call is
  attempted and raises \<open>TypeError\<close>, which is caught: the attempt returns, the line
  printed reports the error, and the registry and the dispatch surface are unchanged.
  With the symbol absent from the same module the plugin is recorded.
\<close>

theorem non_callable_registration_symbol:
  "d ''plugin.cfg'' = Some c \<and> file_lines c = Inr ls \<and> read_config ls = Inr plugin_info \<and>
   d (main_file_name plugin_info n) = Some f \<and> module_spec f = None \<and>
   exec_module f = Inr m \<and> m (register_function_name n) = Some NonCallable \<longrightarrow>
   load_plugin n d st =
     Inr (st\<lparr>sys_path := sys_path_add (path_str (plugin_dir st) n) (sys_path st),
             stdout := stdout st @ [LoadError n ''TypeError'']\<rparr>) \<and>
   \<not> completes n d st \<and>
   (\<forall>d' f'. d' ''plugin.cfg'' = Some c \<and> d' (main_file_name plugin_info n) = Some f' \<and>
      module_spec f' = None \<and> exec_module f' = Inr (m(register_function_name n := None)) \<longrightarrow>
      (\<exists>st'. load_plugin n d' st = Inr st' \<and> n \<in> set (list_plugins st')))"
proof (intro impI conjI allI)
  assume h: "d ''plugin.cfg'' = Some c \<and> file_lines c = Inr ls \<and>
   read_config ls = Inr plugin_info \<and>
   d (main_file_name plugin_info n) = Some f \<and> module_spec f = None \<and>
   exec_module f = Inr m \<and> m (register_function_name n) = Some NonCallable"
  have cl: "call NonCallable (app st) = (app st, Some (Exn ''TypeError''))"
    by (simp add: call_def)
  from h cl show "load_plugin n d st =
     Inr (st\<lparr>sys_path := sys_path_add (path_str (plugin_dir st) n) (sys_path st),
             stdout := stdout st @ [LoadError n ''TypeError'']\<rparr>)"
    using lp_register_raises [where d=d and n=n and st=st and g=NonCallable]
    by (simp add: except_exception_def print_def)
  from h cl show "\<not> completes n d st"
    using completes_called [where d=d and n=n and st=st and g=NonCallable] by simp
  fix d' f'
  assume "d' ''plugin.cfg'' = Some c \<and> d' (main_file_name plugin_info n) = Some f' \<and>
      module_spec f' = None \<and> exec_module f' = Inr (m(register_function_name n := None))"
  with h have "load_plugin n d' st =
     Inr (st\<lparr>sys_path := sys_path_add (path_str (plugin_dir st) n) (sys_path st),
             stdout := stdout st @ [NoRegisterFunction n (register_function_name n)],
             plugins := dict_set (plugins st) n
               \<lparr>info = plugin_info, pmodule = m(register_function_name n := None),
                path = path_str (plugin_dir st) n\<rparr>\<rparr>)"
    using lp_no_symbol [where d=d' and n=n and st=st
        and m="m(register_function_name n := None)"]
    by simp
  then show "\<exists>st'. load_plugin n d' st = Inr st' \<and> n \<in> set (list_plugins st')"
    by (simp add: list_plugins_def set_dict_set)
qed

theorem non_callable_registration_symbol_witness:
  "load_plugin ''X'' (plugin_of [''register_x_routes'' \<mapsto> NonCallable])
     (init ''plugin'' [''/tts''] []) =
     Inr \<lparr>plugin_dir = ''plugin'', plugins = [], app = [''/tts''],
          sys_path = [''plugin/X''], stdout = [LoadError ''X'' ''TypeError'']\<rparr> \<and>
   (\<exists>st'. load_plugin ''X'' (plugin_of Map.empty) (init ''plugin'' [''/tts''] []) = Inr st' \<and>
      ''X'' \<in> set (list_plugins st'))"
proof -
  let ?m = "[''register_x_routes'' \<mapsto> NonCallable]"
  let ?d = "plugin_of ?m" and ?st = "init ''plugin'' [''/tts''] []"
  let ?info = "[(''plugin_main_file'', ''main.py''), (''plugin_version'', ''1.1'')]"
  let ?ls = "[''# manifest'', ''plugin_main_file = main.py'',
               '' plugin_version=1.0'', ''no separator'', ''plugin_version = 1.1 '']"
  have h: "?d ''plugin.cfg'' = Some manifest_file \<and>
        file_lines manifest_file = Inr ?ls \<and> read_config ?ls = Inr ?info \<and>
        ?d (main_file_name ?info ''X'') = Some (source_file ?m) \<and>
        module_spec (source_file ?m) = None \<and>
        exec_module (source_file ?m) = Inr ?m \<and>
        ?m (register_function_name ''X'') = Some NonCallable"
    by (simp add: plugin_of_def manifest_file_def source_file_def example_manifest
          example_names main_file_name_def dict_get_def)
  note inst = non_callable_registration_symbol
         [where d="?d" and n="''X''" and st="?st" and c=manifest_file and ls="?ls" and
            plugin_info="?info" and f="source_file ?m" and m="?m"]
  from inst h have "load_plugin ''X'' ?d ?st =
     Inr (?st\<lparr>sys_path := sys_path_add (path_str (plugin_dir ?st) ''X'') (sys_path ?st),
             stdout := stdout ?st @ [LoadError ''X'' ''TypeError'']\<rparr>)"
    by blast
  then have 1: "load_plugin ''X'' ?d ?st =
     Inr \<lparr>plugin_dir = ''plugin'', plugins = [], app = [''/tts''],
          sys_path = [''plugin/X''], stdout = [LoadError ''X'' ''TypeError'']\<rparr>"
    by (simp add: init_def sys_path_add_def path_str_def)
  have h': "plugin_of Map.empty ''plugin.cfg'' = Some manifest_file \<and>
      plugin_of Map.empty (main_file_name ?info ''X'') = Some (source_file Map.empty) \<and>
      module_spec (source_file Map.empty) = None \<and>
      exec_module (source_file Map.empty) = Inr (?m(register_function_name ''X'' := None))"
    by (simp add: plugin_of_def source_file_def example_names main_file_name_def dict_get_def)
  from inst h h' have "\<exists>st'. load_plugin ''X'' (plugin_of Map.empty) ?st = Inr st' \<and>
      ''X'' \<in> set (list_plugins st')"
    by blast
  with 1 show ?thesis by simp
qed

end
